theory Spec2Isabelle
  imports Main
begin

section \<open>Values, objects and the world\<close>

text \<open>
  The package is Go: loggers are pointers to structs, callbacks are function values held
  in \<open>[]interface{}\<close> slices, and logging writes to the process's streams, to the
  standard logger of package \<open>log\<close> and to files. The model keeps the objects in a heap
  and every effect in an explicit world that each function takes and returns.
\<close>

type_synonym addr = nat
type_synonym handle = nat

text \<open>The dynamic type of a pointer held in an interface value: one per struct of the package.\<close>

datatype kind = KFmtLog | KStdLog | KFileLog | KStack

text \<open>
  The dynamic type of a function value, as far as the type assertions of the four \<open>Init\<close>
  methods tell types apart: \<open>func(*FmtLog)\<close>, \<open>func(*StdLog)\<close>, \<open>func(*FileLog)\<close>,
  \<open>func(Logger)\<close>, or any other function type.
\<close>

datatype fsig = FnFmtLog | FnStdLog | FnFileLog | FnLogger | FnOther

text \<open>
  A value of type \<open>interface{}\<close>: nil, a string, an integer, a boolean, a pointer to one
  of the package's structs at a heap address, or a function value (its type and the
  identifier under which the function table holds its behaviour).
\<close>

datatype val = VNil | VStr string | VInt int | VBool bool | VPtr kind addr | VFunc fsig nat

text \<open>\<open>LogBase\<close>, and the structs that embed it. \<open>FmtLog\<close> and \<open>StdLog\<close> have no field of their own.\<close>

record LogBase =
  initializers :: "val list"

record FileLog = LogBase +
  fileF :: "handle option"
  logPath :: string

record Stack = LogBase +
  loggers :: "val list"

datatype obj = OFmtLog LogBase | OStdLog LogBase | OFileLog FileLog | OStack Stack

text \<open>Where a write goes: the two standard streams, or a file handle returned by \<open>os.OpenFile\<close>.\<close>

datatype sink = SStdout | SStderr | SFile handle

text \<open>The system calls a run performs, in order.\<close>

datatype event = EvOpen string handle | EvWrite sink string | EvClose handle

text \<open>What a panic carries: a failed type assertion, a nil dereference, or the value of \<open>panic(0)\<close>.\<close>

datatype panic = TypeAssertion | NilDeref | PanicValue int

text \<open>The value of \<open>errors.New(text)\<close>.\<close>

datatype error = ErrNew string

text \<open>
  The world: the heap of logger objects; the file system (contents by path) and the paths
  on which \<open>os.OpenFile\<close> fails; every handle \<open>os.OpenFile\<close> has returned, with its path
  and whether it is still open; what has been written to the two standard streams; the
  output of the standard logger of package \<open>log\<close> (set by \<open>log.SetOutput\<close>) and the header
  that logger puts before each entry (its prefix and the date and time its flags select:
  empty with no prefix and flags 0, which is what the tests set); and the system calls so far.
\<close>

record world =
  heap :: "addr \<Rightarrow> obj option"
  files :: "string \<Rightarrow> string option"
  open_fails :: "string \<Rightarrow> bool"
  handles :: "(string \<times> bool) list"
  out_stdout :: string
  out_stderr :: string
  log_out :: sink
  log_header :: string
  trace :: "event list"

section \<open>The library calls the package makes\<close>

text \<open>
  \<open>os.OpenFile(path, O_RDWR|O_CREATE|O_APPEND, 0666)\<close>: fails on the paths the system
  refuses; otherwise creates the file if it is absent and returns a new open handle.
\<close>

definition os_OpenFile :: "string \<Rightarrow> world \<Rightarrow> unit + (handle \<times> world)" where
  "os_OpenFile path w =
     (if open_fails w path then Inl ()
      else Inr (length (handles w),
             w\<lparr>files := (case files w path of None \<Rightarrow> (files w)(path \<mapsto> [])
                                            | Some c \<Rightarrow> files w),
               handles := handles w @ [(path, True)],
               trace := trace w @ [EvOpen path (length (handles w))]\<rparr>))"

definition is_open :: "world \<Rightarrow> handle \<Rightarrow> bool" where
  "is_open w h = (h < length (handles w) \<and> snd (handles w ! h))"

text \<open>\<open>(*os.File).Close\<close>.\<close>

definition File_Close :: "handle \<Rightarrow> world \<Rightarrow> world" where
  "File_Close h w =
     w\<lparr>handles := (if h < length (handles w)
                     then (handles w)[h := (fst (handles w ! h), False)]
                     else handles w),
       trace := trace w @ [EvClose h]\<rparr>"

text \<open>
  One \<open>Write\<close> call on a sink. A handle opened with \<open>O_APPEND\<close> appends to its file; a
  write on a closed handle fails (\<open>os.ErrClosed\<close>) and changes nothing. Both callers
  (\<open>fmt.Println\<close>, \<open>log.Println\<close>) drop the error.
\<close>

definition write_sink :: "sink \<Rightarrow> string \<Rightarrow> world \<Rightarrow> world" where
  "write_sink s t w =
     (case s of
        SStdout \<Rightarrow> w\<lparr>out_stdout := out_stdout w @ t, trace := trace w @ [EvWrite s t]\<rparr>
      | SStderr \<Rightarrow> w\<lparr>out_stderr := out_stderr w @ t, trace := trace w @ [EvWrite s t]\<rparr>
      | SFile h \<Rightarrow>
          (if is_open w h
           then w\<lparr>files := (files w)(fst (handles w ! h) \<mapsto>
                              (case files w (fst (handles w ! h)) of None \<Rightarrow> t
                                                                     | Some c \<Rightarrow> c @ t)),
                  trace := trace w @ [EvWrite s t]\<rparr>
           else w\<lparr>trace := trace w @ [EvWrite s t]\<rparr>))"

text \<open>Decimal and hexadecimal digits of a natural number.\<close>

fun decimal :: "nat \<Rightarrow> string" where
  "decimal n = (if n < 10 then [''0123456789'' ! n]
                else decimal (n div 10) @ [''0123456789'' ! (n mod 10)])"

fun hexadecimal :: "nat \<Rightarrow> string" where
  "hexadecimal n = (if n < 16 then [''0123456789abcdef'' ! n]
                    else hexadecimal (n div 16) @ [''0123456789abcdef'' ! (n mod 16)])"

text \<open>
  The default format (\<open>%v\<close>) of a value that is an element of a slice: a string as it
  is, an integer in decimal, a pointer or a function by its address in hexadecimal.
\<close>

fun fmt_value :: "val \<Rightarrow> string" where
  "fmt_value VNil = ''<nil>''"
| "fmt_value (VStr s) = s"
| "fmt_value (VInt i) = (if i < 0 then ''-'' @ decimal (nat (- i)) else decimal (nat i))"
| "fmt_value (VBool b) = (if b then ''true'' else ''false'')"
| "fmt_value (VPtr k a) = ''0x'' @ hexadecimal a"
| "fmt_value (VFunc g i) = ''0x'' @ hexadecimal i"

text \<open>The default format of a slice: its elements between brackets, one space between two.\<close>

fun fmt_elems :: "val list \<Rightarrow> string" where
  "fmt_elems [] = []"
| "fmt_elems [x] = fmt_value x"
| "fmt_elems (x # y # ys) = fmt_value x @ '' '' @ fmt_elems (y # ys)"

definition fmt_slice :: "val list \<Rightarrow> string" where
  "fmt_slice v = ''['' @ fmt_elems v @ '']''"

text \<open>
  \<open>fmt.Sprintln(level, v)\<close> with a string and a slice as its two operands: a space
  between the operands, a newline at the end.
\<close>

definition Sprintln :: "string \<Rightarrow> val list \<Rightarrow> string" where
  "Sprintln level v = level @ '' '' @ fmt_slice v @ [CHR 0x0A]"

text \<open>\<open>fmt.Println(level, v)\<close>: one write to the standard output.\<close>

definition fmt_Println :: "string \<Rightarrow> val list \<Rightarrow> world \<Rightarrow> world" where
  "fmt_Println level v w = write_sink SStdout (Sprintln level v) w"

text \<open>\<open>log.SetOutput\<close> and \<open>log.Println(level, v)\<close>: one write, header first, to the logger's output.\<close>

definition log_SetOutput :: "sink \<Rightarrow> world \<Rightarrow> world" where
  "log_SetOutput s w = w\<lparr>log_out := s\<rparr>"

definition log_Println :: "string \<Rightarrow> val list \<Rightarrow> world \<Rightarrow> world" where
  "log_Println level v w = write_sink (log_out w) (log_header w @ Sprintln level v) w"

section \<open>logger.go\<close>

subsection \<open>LogBase\<close>

text \<open>\<open>OnInit\<close>: a new empty slice, then the arguments appended to it.\<close>

definition LogBase_OnInit :: "'a LogBase_scheme \<Rightarrow> val list \<Rightarrow> 'a LogBase_scheme" where
  "LogBase_OnInit l fs = (l\<lparr>initializers := []\<rparr>)\<lparr>initializers := [] @ fs\<rparr>"

text \<open>\<open>OnInit\<close> as promoted to the four structs, called through a pointer.\<close>

definition Logger_OnInit :: "kind \<Rightarrow> addr \<Rightarrow> val list \<Rightarrow> world \<Rightarrow> panic + world" where
  "Logger_OnInit k a fs w =
     (case (k, heap w a) of
        (KFmtLog, Some (OFmtLog s)) \<Rightarrow> Inr (w\<lparr>heap := (heap w)(a \<mapsto> OFmtLog (LogBase_OnInit s fs))\<rparr>)
      | (KStdLog, Some (OStdLog s)) \<Rightarrow> Inr (w\<lparr>heap := (heap w)(a \<mapsto> OStdLog (LogBase_OnInit s fs))\<rparr>)
      | (KFileLog, Some (OFileLog s)) \<Rightarrow> Inr (w\<lparr>heap := (heap w)(a \<mapsto> OFileLog (LogBase_OnInit s fs))\<rparr>)
      | (KStack, Some (OStack s)) \<Rightarrow> Inr (w\<lparr>heap := (heap w)(a \<mapsto> OStack (LogBase_OnInit s fs))\<rparr>)
      | _ \<Rightarrow> Inl NilDeref)"

subsection \<open>Init\<close>

text \<open>
  The behaviour of the function values is a parameter \<open>fns\<close>: what the function with a
  given identifier does to the world when called with the receiver at an address, or the
  panic it ends in.

  The loop of the four \<open>Init\<close> methods, which differ in the function type they assert and
  in the text of the error: each callback in turn is asserted to have the type (with the
  comma-ok form, so a mismatch returns the error) and called on the receiver.
\<close>

type_synonym fntab = "nat \<Rightarrow> addr \<Rightarrow> world \<Rightarrow> panic + world"

fun init_loop :: "fntab \<Rightarrow> fsig \<Rightarrow> string \<Rightarrow> addr \<Rightarrow> val list \<Rightarrow> world
                  \<Rightarrow> panic + (error option \<times> world)" where
  "init_loop fns sg msg a [] w = Inr (None, w)"
| "init_loop fns sg msg a (fn # rest) w =
     (case fn of
        VFunc g i \<Rightarrow>
          (if g = sg
           then (case fns i a w of
                   Inl p \<Rightarrow> Inl p
                 | Inr w' \<Rightarrow> init_loop fns sg msg a rest w')
           else Inr (Some (ErrNew msg), w))
      | _ \<Rightarrow> Inr (Some (ErrNew msg), w))"

definition msg_Logger :: string where
  "msg_Logger = ''Init callbacks must have signature func(s Logger)''"

definition msg_FileLog :: string where
  "msg_FileLog = ''Init callbacks must have signature func(s *FileLog)''"

definition FmtLog_Init :: "fntab \<Rightarrow> addr \<Rightarrow> world \<Rightarrow> panic + (error option \<times> world)" where
  "FmtLog_Init fns a w =
     (case heap w a of
        Some (OFmtLog s) \<Rightarrow> init_loop fns FnFmtLog msg_Logger a (initializers s) w
      | _ \<Rightarrow> Inl NilDeref)"

definition StdLog_Init :: "fntab \<Rightarrow> addr \<Rightarrow> world \<Rightarrow> panic + (error option \<times> world)" where
  "StdLog_Init fns a w =
     (case heap w a of
        Some (OStdLog s) \<Rightarrow> init_loop fns FnStdLog msg_Logger a (initializers s) w
      | _ \<Rightarrow> Inl NilDeref)"

definition FileLog_Init :: "fntab \<Rightarrow> addr \<Rightarrow> world \<Rightarrow> panic + (error option \<times> world)" where
  "FileLog_Init fns a w =
     (case heap w a of
        Some (OFileLog s) \<Rightarrow>
          init_loop fns FnFileLog msg_FileLog a (initializers s)
            (w\<lparr>heap := (heap w)(a \<mapsto> OFileLog (s\<lparr>logPath := ''./owtorg-logger''\<rparr>))\<rparr>)
      | _ \<Rightarrow> Inl NilDeref)"

subsection \<open>Log and the severity methods of the three backends\<close>

datatype severity = Emergency | Alert | Critical | Error | Warning | Notice | Info | Debug

text \<open>The string each severity method passes to \<open>Log\<close>.\<close>

fun label :: "severity \<Rightarrow> string" where
  "label Emergency = ''Emergency''"
| "label Alert = ''Alert''"
| "label Critical = ''Critical''"
| "label Error = ''Error''"
| "label Warning = ''Warning''"
| "label Notice = ''Notice''"
| "label Info = ''Info''"
| "label Debug = ''Debug''"

text \<open>\<open>FmtLog.Log\<close> and \<open>StdLog.Log\<close> do not read their receiver.\<close>

definition FmtLog_Log :: "addr \<Rightarrow> string \<Rightarrow> val list \<Rightarrow> world \<Rightarrow> panic + world" where
  "FmtLog_Log a level v w = Inr (fmt_Println level v w)"

definition StdLog_Log :: "addr \<Rightarrow> string \<Rightarrow> val list \<Rightarrow> world \<Rightarrow> panic + world" where
  "StdLog_Log a level v w = Inr (log_Println level v w)"

text \<open>
  \<open>FileLog.Log\<close>: open, \<open>panic(0)\<close> if that fails, keep the handle in the field \<open>f\<close>, make
  it the standard logger's output, print; the deferred \<open>Close\<close> runs on return.
\<close>

definition FileLog_Log :: "addr \<Rightarrow> string \<Rightarrow> val list \<Rightarrow> world \<Rightarrow> panic + world" where
  "FileLog_Log a level v w =
     (case heap w a of
        Some (OFileLog s) \<Rightarrow>
          (case os_OpenFile (logPath s) w of
             Inl err \<Rightarrow> Inl (PanicValue 0)
           | Inr (h, w1) \<Rightarrow>
               Inr (File_Close h
                     (log_Println level v
                       (log_SetOutput (SFile h)
                         (w1\<lparr>heap := (heap w1)(a \<mapsto> OFileLog (s\<lparr>fileF := Some h\<rparr>))\<rparr>)))))
      | _ \<Rightarrow> Inl NilDeref)"

text \<open>
  A call of the logging part of the interface: \<open>Log\<close> with a level, or one of the eight
  severity methods, each of which on a backend is \<open>Log\<close> with its label.
\<close>

datatype call = Log string | Sev severity

fun FmtLog_call :: "call \<Rightarrow> addr \<Rightarrow> val list \<Rightarrow> world \<Rightarrow> panic + world" where
  "FmtLog_call (Log level) a v w = FmtLog_Log a level v w"
| "FmtLog_call (Sev sv) a v w = FmtLog_Log a (label sv) v w"

fun StdLog_call :: "call \<Rightarrow> addr \<Rightarrow> val list \<Rightarrow> world \<Rightarrow> panic + world" where
  "StdLog_call (Log level) a v w = StdLog_Log a level v w"
| "StdLog_call (Sev sv) a v w = StdLog_Log a (label sv) v w"

fun FileLog_call :: "call \<Rightarrow> addr \<Rightarrow> val list \<Rightarrow> world \<Rightarrow> panic + world" where
  "FileLog_call (Log level) a v w = FileLog_Log a level v w"
| "FileLog_call (Sev sv) a v w = FileLog_Log a (label sv) v w"

section \<open>The Stack\<close>

text \<open>The type assertion \<open>v.(Logger)\<close> holds of the pointers to the four structs.\<close>

fun implements_Logger :: "val \<Rightarrow> bool" where
  "implements_Logger (VPtr k a) = True"
| "implements_Logger v = False"

text \<open>
  \<open>Stack.Init\<close>: \<open>make([]interface{}, 1)\<close> is a slice of one element, the zero value nil;
  then the loop over the callbacks.
\<close>

definition Stack_Init :: "fntab \<Rightarrow> addr \<Rightarrow> world \<Rightarrow> panic + (error option \<times> world)" where
  "Stack_Init fns a w =
     (case heap w a of
        Some (OStack s) \<Rightarrow>
          init_loop fns FnLogger msg_Logger a (initializers s)
            (w\<lparr>heap := (heap w)(a \<mapsto> OStack (s\<lparr>loggers := replicate 1 VNil\<rparr>))\<rparr>)
      | _ \<Rightarrow> Inl NilDeref)"

text \<open>\<open>Init\<close> called through the interface.\<close>

fun Logger_Init :: "fntab \<Rightarrow> kind \<Rightarrow> addr \<Rightarrow> world \<Rightarrow> panic + (error option \<times> world)" where
  "Logger_Init fns KFmtLog a w = FmtLog_Init fns a w"
| "Logger_Init fns KStdLog a w = StdLog_Init fns a w"
| "Logger_Init fns KFileLog a w = FileLog_Init fns a w"
| "Logger_Init fns KStack a w = Stack_Init fns a w"

text \<open>
  The loop of \<open>Add\<close> and of \<open>Set\<close>: each value is asserted to be a \<open>Logger\<close> (without
  comma-ok, so a mismatch panics) and its \<open>Init\<close> is called; the error \<open>Init\<close> returns is
  dropped.
\<close>

fun init_each :: "fntab \<Rightarrow> val list \<Rightarrow> world \<Rightarrow> panic + world" where
  "init_each fns [] w = Inr w"
| "init_each fns (v # rest) w =
     (case v of
        VPtr k b \<Rightarrow>
          (case Logger_Init fns k b w of
             Inl p \<Rightarrow> Inl p
           | Inr (e, w') \<Rightarrow> init_each fns rest w')
      | _ \<Rightarrow> Inl TypeAssertion)"

text \<open>\<open>Stack.Add\<close>: the loop, then \<open>s.loggers = append(s.loggers, l...)\<close>.\<close>

definition Stack_Add :: "fntab \<Rightarrow> addr \<Rightarrow> val list \<Rightarrow> world \<Rightarrow> panic + world" where
  "Stack_Add fns a l w =
     (case init_each fns l w of
        Inl p \<Rightarrow> Inl p
      | Inr w1 \<Rightarrow>
          (case heap w1 a of
             Some (OStack s) \<Rightarrow>
               Inr (w1\<lparr>heap := (heap w1)(a \<mapsto> OStack (s\<lparr>loggers := loggers s @ l\<rparr>))\<rparr>)
           | _ \<Rightarrow> Inl NilDeref))"

text \<open>\<open>Stack.Set\<close>: \<open>s.loggers = Loggers\<close>, then the loop over \<open>s.loggers\<close>.\<close>

definition Stack_Set :: "fntab \<Rightarrow> addr \<Rightarrow> val list \<Rightarrow> world \<Rightarrow> panic + world" where
  "Stack_Set fns a ls w =
     (case heap w a of
        Some (OStack s) \<Rightarrow>
          init_each fns ls (w\<lparr>heap := (heap w)(a \<mapsto> OStack (s\<lparr>loggers := ls\<rparr>))\<rparr>)
      | _ \<Rightarrow> Inl NilDeref)"

text \<open>
  The loop of the nine logging methods of the Stack over \<open>s.loggers\<close>, with the call on
  one member as its body. A panic ends the loop.
\<close>

fun range_loggers :: "(val \<Rightarrow> world \<Rightarrow> (panic + world) option) \<Rightarrow> val list \<Rightarrow> world
                      \<Rightarrow> (panic + world) option" where
  "range_loggers body [] w = Some (Inr w)"
| "range_loggers body (lg # rest) w =
     (case body lg w of
        None \<Rightarrow> None
      | Some (Inl p) \<Rightarrow> Some (Inl p)
      | Some (Inr w') \<Rightarrow> range_loggers body rest w')"

text \<open>
  A logging call through the interface. On a Stack it asserts each member to be a
  \<open>Logger\<close> and makes the same call on it, which for a member that is a Stack goes on
  into its members: a Stack reachable from itself never returns. The first argument
  bounds the depth of these calls; \<open>None\<close> says the bound was too small.
\<close>

fun Logger_call :: "nat \<Rightarrow> call \<Rightarrow> val \<Rightarrow> val list \<Rightarrow> world \<Rightarrow> (panic + world) option" where
  "Logger_call 0 c lg v w = None"
| "Logger_call (Suc n) c lg v w =
     (case lg of
        VPtr KFmtLog a \<Rightarrow> Some (FmtLog_call c a v w)
      | VPtr KStdLog a \<Rightarrow> Some (StdLog_call c a v w)
      | VPtr KFileLog a \<Rightarrow> Some (FileLog_call c a v w)
      | VPtr KStack a \<Rightarrow>
          (case heap w a of
             Some (OStack s) \<Rightarrow> range_loggers (\<lambda>m. Logger_call n c m v) (loggers s) w
           | _ \<Rightarrow> Some (Inl NilDeref))
      | _ \<Rightarrow> Some (Inl TypeAssertion))"

text \<open>The nine logging methods of the Stack.\<close>

definition Stack_call :: "nat \<Rightarrow> call \<Rightarrow> addr \<Rightarrow> val list \<Rightarrow> world \<Rightarrow> (panic + world) option" where
  "Stack_call n c a v w = Logger_call n c (VPtr KStack a) v w"

section \<open>Notions used in the statements\<close>

text \<open>The level a logging call carries to the backends.\<close>

fun level_of :: "call \<Rightarrow> string" where
  "level_of (Log level) = level"
| "level_of (Sev sv) = label sv"

text \<open>Strings joined with a separator between two neighbours.\<close>

fun join :: "string \<Rightarrow> string list \<Rightarrow> string" where
  "join sep [] = []"
| "join sep [x] = x"
| "join sep (x # y # ys) = x @ sep @ join sep (y # ys)"

text \<open>The writes among the system calls of a trace: where to, and what.\<close>

fun writes :: "event list \<Rightarrow> (sink \<times> string) list" where
  "writes [] = []"
| "writes (EvWrite s t # es) = (s, t) # writes es"
| "writes (e # es) = writes es"

text \<open>The type of the object at an address, and two fields read through an address.\<close>

fun kind_of :: "obj \<Rightarrow> kind" where
  "kind_of (OFmtLog s) = KFmtLog"
| "kind_of (OStdLog s) = KStdLog"
| "kind_of (OFileLog s) = KFileLog"
| "kind_of (OStack s) = KStack"

definition kind_at :: "world \<Rightarrow> addr \<Rightarrow> kind option" where
  "kind_at w a = map_option kind_of (heap w a)"

fun obj_initializers :: "obj \<Rightarrow> val list" where
  "obj_initializers (OFmtLog s) = initializers s"
| "obj_initializers (OStdLog s) = initializers s"
| "obj_initializers (OFileLog s) = initializers s"
| "obj_initializers (OStack s) = initializers s"

definition logPath_at :: "world \<Rightarrow> addr \<Rightarrow> string option" where
  "logPath_at w a = (case heap w a of Some (OFileLog s) \<Rightarrow> Some (logPath s) | _ \<Rightarrow> None)"

definition loggers_at :: "world \<Rightarrow> addr \<Rightarrow> val list option" where
  "loggers_at w a = (case heap w a of Some (OStack s) \<Rightarrow> Some (loggers s) | _ \<Rightarrow> None)"

text \<open>
  The callback shape each type expects: a function of a pointer to the type itself, for
  the Stack a function of a \<open>Logger\<close>; and the error its \<open>Init\<close> returns otherwise.
\<close>

fun expected_sig :: "kind \<Rightarrow> fsig" where
  "expected_sig KFmtLog = FnFmtLog"
| "expected_sig KStdLog = FnStdLog"
| "expected_sig KFileLog = FnFileLog"
| "expected_sig KStack = FnLogger"

fun has_sig :: "fsig \<Rightarrow> val \<Rightarrow> bool" where
  "has_sig sg (VFunc g i) = (g = sg)"
| "has_sig sg v = False"

fun InvalidCallbackSignature :: "kind \<Rightarrow> error" where
  "InvalidCallbackSignature KFileLog = ErrNew msg_FileLog"
| "InvalidCallbackSignature k = ErrNew msg_Logger"

text \<open>Function values called one after the other on the same receiver, first to last.\<close>

fun apply_in_order :: "fntab \<Rightarrow> addr \<Rightarrow> val list \<Rightarrow> world \<Rightarrow> panic + world" where
  "apply_in_order fns a [] w = Inr w"
| "apply_in_order fns a (VFunc g i # rest) w =
     (case fns i a w of Inl p \<Rightarrow> Inl p | Inr w' \<Rightarrow> apply_in_order fns a rest w')"
| "apply_in_order fns a (x # rest) w = apply_in_order fns a rest w"

text \<open>What \<open>Init\<close> assigns before its loop: the default path of a FileLog, the slice of a Stack.\<close>

definition before_callbacks :: "addr \<Rightarrow> world \<Rightarrow> world" where
  "before_callbacks a w =
     (case heap w a of
        Some (OFileLog s) \<Rightarrow> w\<lparr>heap := (heap w)(a \<mapsto> OFileLog (s\<lparr>logPath := ''./owtorg-logger''\<rparr>))\<rparr>
      | Some (OStack s) \<Rightarrow> w\<lparr>heap := (heap w)(a \<mapsto> OStack (s\<lparr>loggers := [VNil]\<rparr>))\<rparr>
      | _ \<Rightarrow> w)"

text \<open>Function values that return normally, and that leave every object its type.\<close>

definition returns_normally :: "fntab \<Rightarrow> bool" where
  "returns_normally fns = (\<forall>i a u. \<exists>u'. fns i a u = Inr u')"

definition keeps_kinds :: "fntab \<Rightarrow> bool" where
  "keeps_kinds fns = (\<forall>i a u u' b. fns i a u = Inr u' \<longrightarrow> kind_at u' b = kind_at u b)"

text \<open>Several \<open>StdLog\<close> calls one after the other.\<close>

fun StdLog_calls :: "(addr \<times> call \<times> val list) list \<Rightarrow> world \<Rightarrow> panic + world" where
  "StdLog_calls [] w = Inr w"
| "StdLog_calls ((a, c, v) # rest) w =
     (case StdLog_call c a v w of Inl p \<Rightarrow> Inl p | Inr w' \<Rightarrow> StdLog_calls rest w')"

section \<open>The objects and functions of the tests\<close>

text \<open>\<open>new(FmtLog)\<close>, \<open>new(StdLog)\<close>, \<open>new(FileLog)\<close> and \<open>new(Stack)\<close>: every field is zero.\<close>

definition new_LogBase :: LogBase where
  "new_LogBase = \<lparr>initializers = []\<rparr>"

definition new_FileLog :: FileLog where
  "new_FileLog = \<lparr>initializers = [], fileF = None, logPath = []\<rparr>"

definition new_Stack :: Stack where
  "new_Stack = \<lparr>initializers = [], loggers = []\<rparr>"

text \<open>
  A process that has done nothing yet, with the given objects allocated: no file, no
  handle, every path can be opened but one, the standard logger writes to the standard
  error with the header it is given.
\<close>

definition start :: "(addr \<Rightarrow> obj option) \<Rightarrow> string \<Rightarrow> world" where
  "start h hdr =
     \<lparr>heap = h, files = (\<lambda>p. None), open_fails = (\<lambda>p. p = ''/proc/denied''), handles = [],
      out_stdout = [], out_stderr = [], log_out = SStderr, log_header = hdr, trace = []\<rparr>"

text \<open>
  The callback of the tests, \<open>tlCallback\<close>, under every identifier: it sets the path of
  the FileLog it is given (the tests add the time of day to the name).
\<close>

definition tl_fns :: fntab where
  "tl_fns i a w =
     (case heap w a of
        Some (OFileLog s) \<Rightarrow>
          Inr (w\<lparr>heap := (heap w)(a \<mapsto> OFileLog (s\<lparr>logPath := ''./test/output/testfile''\<rparr>))\<rparr>)
      | _ \<Rightarrow> Inr w)"

text \<open>A FileLog at address 0 with the default path, and one whose path cannot be opened.\<close>

definition file_world :: world where
  "file_world = start [0 \<mapsto> OFileLog (new_FileLog\<lparr>logPath := ''./owtorg-logger''\<rparr>)] []"

definition denied_world :: world where
  "denied_world = start [0 \<mapsto> OFileLog (new_FileLog\<lparr>logPath := ''/proc/denied''\<rparr>)] []"

text \<open>
  The line of a logging call: the level, one space, the values in their default format
  between brackets with one space between two, a newline.
\<close>

definition line_of :: "string \<Rightarrow> val list \<Rightarrow> string" where
  "line_of level v = level @ '' '' @ ''['' @ join '' '' (map fmt_value v) @ '']'' @ [CHR 0x0A]"

text \<open>Three calls on StdLog objects: a \<open>Log\<close> with a level of its own and two severity methods.\<close>

definition three_calls :: "(addr \<times> call \<times> val list) list" where
  "three_calls = [(1, Log ''Arbitrary'', [VStr ''one'']), (1, Sev Alert, [VStr ''two'']), (2, Sev Debug, [])]"

text \<open>
  Two callbacks on a FileLog whose order of application shows in the result: the one
  with identifier 0 sets the path, every other one adds a suffix to the path it finds.
\<close>

definition two_paths :: fntab where
  "two_paths i a w =
     (case heap w a of
        Some (OFileLog s) \<Rightarrow>
          Inr (w\<lparr>heap := (heap w)(a \<mapsto> OFileLog (s\<lparr>logPath := (if i = 0 then ''/tmp/first'' else logPath s @ ''.log'')\<rparr>))\<rparr>)
      | _ \<Rightarrow> Inr w)"

text \<open>
  Two FileLogs and a Stack with callbacks registered: all of the right type at address
  0 and at address 2, one of the wrong type in second place at address 1.
\<close>

definition callbacks_world :: world where
  "callbacks_world = start [0 \<mapsto> OFileLog (new_FileLog\<lparr>initializers := [VFunc FnFileLog 0, VFunc FnFileLog 1]\<rparr>),
                           1 \<mapsto> OFileLog (new_FileLog\<lparr>initializers := [VFunc FnFileLog 1, VFunc FnLogger 0, VFunc FnFileLog 0]\<rparr>),
                           2 \<mapsto> OStack (new_Stack\<lparr>initializers := [VFunc FnLogger 0]\<rparr>)] []"

section \<open>Registering callbacks\<close>

text \<open>
  C6. Registering init callbacks replaces the pending list: after \<open>OnInit(f...)\<close> followed
  by \<open>OnInit(g...)\<close> the list is exactly \<open>g\<close>, for every struct that embeds \<open>LogBase\<close>
  (every extension of the record), and the other fields are as before.
\<close>

theorem OnInit_replaces:
  "initializers (LogBase_OnInit (LogBase_OnInit l fs) gs) = gs
   \<and> LogBase_OnInit (LogBase_OnInit l fs) gs = l\<lparr>initializers := gs\<rparr>"
  by (simp add: LogBase_OnInit_def)

section \<open>The line a backend writes\<close>

lemma fmt_elems_join: "fmt_elems v = join '' '' (map fmt_value v)"
  by (induction v rule: fmt_elems.induct) simp_all

lemma Sprintln_line:
  "Sprintln level v = level @ '' '' @ ''['' @ join '' '' (map fmt_value v) @ '']'' @ [CHR 0x0A]"
  by (simp add: Sprintln_def fmt_slice_def fmt_elems_join)

section \<open>FileLog.Log\<close>

lemma FileLog_Log_ok:
  assumes "heap w a = Some (OFileLog s)" and "\<not> open_fails w (logPath s)"
  shows "FileLog_Log a level v w =
     Inr (w\<lparr>heap := (heap w)(a \<mapsto> OFileLog (s\<lparr>fileF := Some (length (handles w))\<rparr>)),
            files := (files w)(logPath s \<mapsto>
               (case files w (logPath s) of None \<Rightarrow> [] | Some c \<Rightarrow> c)
                 @ log_header w @ Sprintln level v),
            handles := handles w @ [(logPath s, False)],
            log_out := SFile (length (handles w)),
            trace := trace w @ [EvOpen (logPath s) (length (handles w)),
                      EvWrite (SFile (length (handles w))) (log_header w @ Sprintln level v),
                      EvClose (length (handles w))]\<rparr>)"
  using assms
  by (auto simp: FileLog_Log_def os_OpenFile_def File_Close_def log_Println_def log_SetOutput_def
        write_sink_def is_open_def nth_append split: option.splits)

lemma FileLog_Log_fails:
  assumes "heap w a = Some (OFileLog s)" and "open_fails w (logPath s)"
  shows "FileLog_Log a level v w = Inl (PanicValue 0)"
  using assms by (simp add: FileLog_Log_def os_OpenFile_def)

text \<open>
  C8. A \<open>Log\<close> call on a FileLog makes exactly three system calls when the open succeeds:
  it opens the path for append (the file exists afterwards, created empty if it was
  absent), writes one line to the handle it got, and closes that handle before it
  returns. The handle is new and is closed at the end, so the open handles are the same
  before and after the call, and the file has grown by that line. When the open fails
  the call panics with the value 0 and returns nothing.
\<close>

theorem FileLog_Log_cycle:
  "heap w a = Some (OFileLog s) \<Longrightarrow>
   (if open_fails w (logPath s) then FileLog_Log a level v w = Inl (PanicValue 0)
    else \<exists>w'. FileLog_Log a level v w = Inr w'
       \<and> trace w' = trace w @ [EvOpen (logPath s) (length (handles w)),
                                EvWrite (SFile (length (handles w))) (log_header w @ Sprintln level v),
                                EvClose (length (handles w))]
       \<and> handles w' = handles w @ [(logPath s, False)]
       \<and> (\<forall>h. is_open w' h = is_open w h)
       \<and> files w' = (files w)(logPath s \<mapsto>
            (case files w (logPath s) of None \<Rightarrow> [] | Some c \<Rightarrow> c)
              @ log_header w @ Sprintln level v))"
  by (auto simp: FileLog_Log_ok FileLog_Log_fails is_open_def nth_append)

theorem FileLog_Log_cycle_witness:
  "(\<exists>w'. FileLog_Log 0 ''Info'' [VStr ''up''] file_world = Inr w'
      \<and> trace w' = [EvOpen ''./owtorg-logger'' 0,
                     EvWrite (SFile 0) (''Info [up]'' @ [CHR 0x0A]), EvClose 0]
      \<and> handles w' = [(''./owtorg-logger'', False)]
      \<and> files w' ''./owtorg-logger'' = Some (''Info [up]'' @ [CHR 0x0A]))
   \<and> FileLog_Log 0 ''Info'' [VStr ''up''] denied_world = Inl (PanicValue 0)"
  using FileLog_Log_cycle [of file_world 0 "new_FileLog\<lparr>logPath := ''./owtorg-logger''\<rparr>"
          "''Info''" "[VStr ''up'']"]
        FileLog_Log_cycle [of denied_world 0 "new_FileLog\<lparr>logPath := ''/proc/denied''\<rparr>"
          "''Info''" "[VStr ''up'']"]
  by (auto simp: file_world_def denied_world_def start_def new_FileLog_def Sprintln_def
        fmt_slice_def)

lemma writes_append: "writes (xs @ ys) = writes xs @ writes ys"
  by (induction xs rule: writes.induct) simp_all

lemma Sprintln_line_of: "Sprintln level v = line_of level v"
  by (simp add: Sprintln_line line_of_def)

text \<open>
  C4, as the claim states it, fails: Go's default format of a slice puts a space, not a
  comma, between two elements, so \<open>Log("L", "a", "b")\<close> on a FmtLog writes \<open>L [a b]\<close>,
  a line without any comma; and a StdLog writes the standard logger's header before the
  level, here a date and a time.
\<close>

theorem backend_line_counterexample:
  "(\<exists>w'. FmtLog_Log 0 ''L'' [VStr ''a'', VStr ''b''] (start (\<lambda>a. None) []) = Inr w'
       \<and> trace w' = [EvWrite SStdout (''L [a b]'' @ [CHR 0x0A])]
       \<and> out_stdout w' = ''L [a b]'' @ [CHR 0x0A]
       \<and> CHR '','' \<notin> set (out_stdout w'))
   \<and> (\<exists>w'. StdLog_Log 0 ''L'' [VStr ''a''] (start (\<lambda>a. None) ''2009/11/10 23:00:00 '') = Inr w'
       \<and> out_stderr w' = ''2009/11/10 23:00:00 L [a]'' @ [CHR 0x0A])"
  by (simp add: FmtLog_Log_def StdLog_Log_def fmt_Println_def log_Println_def write_sink_def
        start_def Sprintln_def fmt_slice_def)

text \<open>
  C4, amended. For every level and every argument list, \<open>Log\<close> makes exactly one write
  of one line: the level as given, one space, the values in their default format
  between brackets with one space between two, and a newline. A FmtLog writes it to the
  standard output; a StdLog writes it, after the standard logger's header, to that
  logger's output; a FileLog whose path can be opened writes it, after the header, to
  the handle it opened, and the file grows by it. With an empty header (no prefix,
  flags 0, as the tests set), \<open>Log("Arbitrary", "This is a generic message")\<close> on a
  StdLog writes \<open>Arbitrary [This is a generic message]\<close> and a newline.
\<close>

theorem backend_line:
  "(\<exists>w'. FmtLog_Log a level v w = Inr w'
       \<and> trace w' = trace w @ [EvWrite SStdout (line_of level v)]
       \<and> out_stdout w' = out_stdout w @ line_of level v)
   \<and> (\<exists>w'. StdLog_Log a level v w = Inr w'
       \<and> trace w' = trace w @ [EvWrite (log_out w) (log_header w @ line_of level v)])
   \<and> (heap w a = Some (OFileLog s) \<and> \<not> open_fails w (logPath s) \<longrightarrow>
        (\<exists>w'. FileLog_Log a level v w = Inr w'
          \<and> writes (trace w')
              = writes (trace w) @ [(SFile (length (handles w)), log_header w @ line_of level v)]
          \<and> files w' (logPath s) = Some ((case files w (logPath s) of None \<Rightarrow> [] | Some c \<Rightarrow> c)
                 @ log_header w @ line_of level v)))
   \<and> (log_header w = [] \<longrightarrow>
        (\<exists>w'. StdLog_Log a ''Arbitrary'' [VStr ''This is a generic message''] w = Inr w'
          \<and> writes (trace w') = writes (trace w)
               @ [(log_out w, ''Arbitrary [This is a generic message]'' @ [CHR 0x0A])]))"
proof -
  have fmt: "\<exists>w'. FmtLog_Log a level v w = Inr w'
       \<and> trace w' = trace w @ [EvWrite SStdout (line_of level v)]
       \<and> out_stdout w' = out_stdout w @ line_of level v"
    by (simp add: FmtLog_Log_def fmt_Println_def write_sink_def Sprintln_line_of)
  have std: "\<And>lv vs. \<exists>w'. StdLog_Log a lv vs w = Inr w'
       \<and> trace w' = trace w @ [EvWrite (log_out w) (log_header w @ line_of lv vs)]"
    by (simp add: StdLog_Log_def log_Println_def write_sink_def Sprintln_line_of split: sink.splits)
  have fl: "heap w a = Some (OFileLog s) \<and> \<not> open_fails w (logPath s) \<longrightarrow>
        (\<exists>w'. FileLog_Log a level v w = Inr w'
          \<and> writes (trace w')
              = writes (trace w) @ [(SFile (length (handles w)), log_header w @ line_of level v)]
          \<and> files w' (logPath s) = Some ((case files w (logPath s) of None \<Rightarrow> [] | Some c \<Rightarrow> c)
                 @ log_header w @ line_of level v))"
    by (simp add: FileLog_Log_ok writes_append Sprintln_line_of)
  have arb: "line_of ''Arbitrary'' [VStr ''This is a generic message'']
               = ''Arbitrary [This is a generic message]'' @ [CHR 0x0A]"
    by (simp add: line_of_def)
  have b: "log_header w = [] \<longrightarrow>
        (\<exists>w'. StdLog_Log a ''Arbitrary'' [VStr ''This is a generic message''] w = Inr w'
          \<and> writes (trace w') = writes (trace w)
               @ [(log_out w, ''Arbitrary [This is a generic message]'' @ [CHR 0x0A])])"
    using std [of "''Arbitrary''" "[VStr ''This is a generic message'']"]
    by (auto simp: writes_append arb)
  from fmt std [of level v] fl b show ?thesis by blast
qed

theorem backend_line_witness:
  "(\<exists>w'. FmtLog_Log 0 ''Debug'' [VStr ''x'', VInt 42, VNil] file_world = Inr w'
       \<and> out_stdout w' = ''Debug [x 42 <nil>]'' @ [CHR 0x0A])
   \<and> (\<exists>w'. StdLog_Log 0 ''Debug'' [VStr ''x'', VInt 42, VNil] file_world = Inr w'
       \<and> trace w' = [EvWrite SStderr (''Debug [x 42 <nil>]'' @ [CHR 0x0A])])
   \<and> (\<exists>w'. FileLog_Log 0 ''Debug'' [VStr ''x'', VInt 42, VNil] file_world = Inr w'
       \<and> writes (trace w') = [(SFile 0, ''Debug [x 42 <nil>]'' @ [CHR 0x0A])]
       \<and> files w' ''./owtorg-logger'' = Some (''Debug [x 42 <nil>]'' @ [CHR 0x0A]))
   \<and> (\<exists>w'. StdLog_Log 0 ''Arbitrary'' [VStr ''This is a generic message''] file_world = Inr w'
       \<and> writes (trace w') = [(SStderr, ''Arbitrary [This is a generic message]'' @ [CHR 0x0A])])"
  using backend_line [of 0 "''Debug''" "[VStr ''x'', VInt 42, VNil]" file_world
          "new_FileLog\<lparr>logPath := ''./owtorg-logger''\<rparr>"]
  by (simp add: file_world_def start_def new_FileLog_def line_of_def) blast

section \<open>The standard logger after FileLog.Log\<close>

lemma StdLog_call_closed:
  assumes "log_out u = SFile h" and "\<not> is_open u h"
  shows "StdLog_call c b vs u =
           Inr (u\<lparr>trace := trace u @ [EvWrite (SFile h) (log_header u @ line_of (level_of c) vs)]\<rparr>)"
  using assms
  by (cases c) (simp_all add: StdLog_Log_def log_Println_def write_sink_def Sprintln_line_of)

lemma StdLog_calls_closed:
  assumes "log_out u = SFile h" and "\<not> is_open u h"
  shows "StdLog_calls calls u =
           Inr (u\<lparr>trace := trace u @ map (\<lambda>(b, c, vs).
                  EvWrite (SFile h) (log_header u @ line_of (level_of c) vs)) calls\<rparr>)"
  using assms
proof (induction calls arbitrary: u)
  case Nil
  then show ?case by simp
next
  case (Cons x calls)
  obtain b c vs where x: "x = (b, c, vs)" by (cases x) auto
  let ?u1 = "u\<lparr>trace := trace u @ [EvWrite (SFile h) (log_header u @ line_of (level_of c) vs)]\<rparr>"
  have step: "StdLog_call c b vs u = Inr ?u1"
    using Cons.prems by (rule StdLog_call_closed)
  have "log_out ?u1 = SFile h" and "\<not> is_open ?u1 h"
    using Cons.prems by (simp_all add: is_open_def)
  from Cons.IH [OF this] show ?case
    by (simp add: x step)
qed

lemma writes_map_EvWrite: "writes (map (\<lambda>x. EvWrite (g x) (t x)) xs) = map (\<lambda>x. (g x, t x)) xs"
  by (induction xs) simp_all

text \<open>
  C9. A \<open>Log\<close> call on a FileLog that returns leaves the standard logger of the process
  set to the handle it opened on its own path, and that handle is closed by then; the
  call does not put the previous output back. Every \<open>StdLog\<close> call made afterwards,
  \<open>Log\<close> or severity method, on whatever StdLog object, sends its write to that closed
  handle and not to the standard stream: the writes of any sequence of such calls all
  name that handle, the output stays set to it, and nothing reaches the standard error
  or the standard output. (The handle being closed, the system refuses each of these
  writes, so the file does not change either.)
\<close>

theorem FileLog_Log_redirects:
  assumes "heap w a = Some (OFileLog s)" and "\<not> open_fails w (logPath s)"
  shows "\<exists>w'. FileLog_Log a level v w = Inr w'
     \<and> log_out w' = SFile (length (handles w))
     \<and> handles w' ! length (handles w) = (logPath s, False)
     \<and> \<not> is_open w' (length (handles w))
     \<and> (\<forall>calls. \<exists>w''. StdLog_calls calls w' = Inr w''
          \<and> log_out w'' = SFile (length (handles w))
          \<and> writes (trace w'') = writes (trace w')
               @ map (\<lambda>(b, c, vs). (SFile (length (handles w)),
                                     log_header w @ line_of (level_of c) vs)) calls
          \<and> out_stderr w'' = out_stderr w' \<and> out_stdout w'' = out_stdout w'
          \<and> files w'' = files w')"
proof -
  let ?h = "length (handles w)"
  obtain w' where w': "FileLog_Log a level v w = Inr w'"
    and lo: "log_out w' = SFile ?h" and hs: "handles w' = handles w @ [(logPath s, False)]"
    and hd: "log_header w' = log_header w"
    using FileLog_Log_ok [OF assms, of level v] by simp
  have closed: "\<not> is_open w' ?h" by (simp add: is_open_def hs)
  have later: "\<exists>w''. StdLog_calls calls w' = Inr w''
          \<and> log_out w'' = SFile ?h
          \<and> writes (trace w'') = writes (trace w')
               @ map (\<lambda>(b, c, vs). (SFile ?h, log_header w @ line_of (level_of c) vs)) calls
          \<and> out_stderr w'' = out_stderr w' \<and> out_stdout w'' = out_stdout w'
          \<and> files w'' = files w'" for calls
    using StdLog_calls_closed [OF lo closed, of calls]
    by (simp add: lo hd writes_append writes_map_EvWrite case_prod_unfold)
  from w' lo hs closed later show ?thesis by (auto simp: nth_append)
qed

theorem FileLog_Log_redirects_witness:
  "\<exists>w'. FileLog_Log 0 ''Info'' [VStr ''up''] file_world = Inr w'
     \<and> log_out file_world = SStderr
     \<and> log_out w' = SFile 0
     \<and> handles w' ! 0 = (''./owtorg-logger'', False)
     \<and> (\<exists>w''. StdLog_calls three_calls w' = Inr w''
          \<and> log_out w'' = SFile 0
          \<and> writes (trace w'') = [(SFile 0, ''Info [up]'' @ [CHR 0x0A]),
               (SFile 0, ''Arbitrary [one]'' @ [CHR 0x0A]), (SFile 0, ''Alert [two]'' @ [CHR 0x0A]),
               (SFile 0, ''Debug []'' @ [CHR 0x0A])]
          \<and> out_stderr w'' = []
          \<and> files w'' ''./owtorg-logger'' = Some (''Info [up]'' @ [CHR 0x0A]))"
proof -
  have h: "heap file_world 0 = Some (OFileLog (new_FileLog\<lparr>logPath := ''./owtorg-logger''\<rparr>))"
    and o: "\<not> open_fails file_world (logPath (new_FileLog\<lparr>logPath := ''./owtorg-logger''\<rparr>))"
    by (simp_all add: file_world_def start_def)
  from FileLog_Log_redirects [OF h o, of "''Info''" "[VStr ''up'']"]
  obtain w' where 1: "FileLog_Log 0 ''Info'' [VStr ''up''] file_world = Inr w'"
    and 2: "log_out w' = SFile 0" and 3: "handles w' ! 0 = (''./owtorg-logger'', False)"
    and 4: "\<And>calls. \<exists>w''. StdLog_calls calls w' = Inr w''
          \<and> log_out w'' = SFile 0
          \<and> writes (trace w'') = writes (trace w')
               @ map (\<lambda>(b, c, vs). (SFile 0, line_of (level_of c) vs)) calls
          \<and> out_stderr w'' = out_stderr w' \<and> out_stdout w'' = out_stdout w'
          \<and> files w'' = files w'"
    by (auto simp: file_world_def start_def)
  have w'_eq: "w' = file_world\<lparr>heap := (heap file_world)(0 \<mapsto> OFileLog (new_FileLog\<lparr>logPath := ''./owtorg-logger'', fileF := Some 0\<rparr>)),
            files := (files file_world)(''./owtorg-logger'' \<mapsto> ''Info [up]'' @ [CHR 0x0A]),
            handles := [(''./owtorg-logger'', False)],
            log_out := SFile 0,
            trace := [EvOpen ''./owtorg-logger'' 0, EvWrite (SFile 0) (''Info [up]'' @ [CHR 0x0A]), EvClose 0]\<rparr>"
    using 1 FileLog_Log_ok [OF h o, of "''Info''" "[VStr ''up'']"]
    by (simp add: file_world_def start_def new_FileLog_def Sprintln_def fmt_slice_def)
  from 4 [of three_calls] obtain w'' where 5: "StdLog_calls three_calls w' = Inr w''"
    and 6: "log_out w'' = SFile 0"
    and 7: "writes (trace w'') = writes (trace w')
               @ map (\<lambda>(b, c, vs). (SFile 0, line_of (level_of c) vs)) three_calls"
    and 8: "out_stderr w'' = out_stderr w'" and 9: "files w'' = files w'"
    by blast
  have n7: "writes (trace w'') = [(SFile 0, ''Info [up]'' @ [CHR 0x0A]),
               (SFile 0, ''Arbitrary [one]'' @ [CHR 0x0A]), (SFile 0, ''Alert [two]'' @ [CHR 0x0A]),
               (SFile 0, ''Debug []'' @ [CHR 0x0A])]"
    using 7 by (simp add: w'_eq three_calls_def line_of_def)
  have n8: "out_stderr w'' = []" using 8 by (simp add: w'_eq file_world_def start_def)
  have n9: "files w'' ''./owtorg-logger'' = Some (''Info [up]'' @ [CHR 0x0A])"
    using 9 by (simp add: w'_eq)
  have z: "log_out file_world = SStderr" by (simp add: file_world_def start_def)
  from z 1 2 3 5 6 n7 n8 n9 show ?thesis by blast
qed

section \<open>Init\<close>

lemma init_loop_in_order:
  assumes "returns_normally fns"
  shows "\<exists>w'. init_loop fns sg msg a fs w
               = Inr (if \<forall>fn\<in>set fs. has_sig sg fn then None else Some (ErrNew msg), w')
            \<and> apply_in_order fns a (takeWhile (has_sig sg) fs) w = Inr w'"
proof (induction fs arbitrary: w)
  case Nil
  show ?case by simp
next
  case (Cons fn fs)
  show ?case
  proof (cases "has_sig sg fn")
    case True
    then obtain i where fn: "fn = VFunc sg i" by (cases fn) auto
    from assms obtain u where u: "fns i a w = Inr u"
      unfolding returns_normally_def by blast
    from Cons.IH [of u] show ?thesis by (simp add: fn u)
  next
    case False
    then show ?thesis by (cases fn) auto
  qed
qed

lemma tl_fns_returns: "returns_normally tl_fns"
  by (auto simp: returns_normally_def tl_fns_def split: option.splits obj.splits)

lemma two_paths_returns: "returns_normally two_paths"
  by (auto simp: returns_normally_def two_paths_def split: option.splits obj.splits)

text \<open>
  C5. For an object of any of the four types and callbacks that return normally, \<open>Init\<close>
  returns; the error it returns is the invalid-signature error of the type if some
  registered callback does not have the shape the type expects (a function of a pointer
  to the type itself, for the Stack a function of a \<open>Logger\<close>), and nil if all have it;
  and the world it leaves is the one reached by calling the registered callbacks on the
  instance one after the other in registration order, up to the first one of the wrong
  shape, starting from what \<open>Init\<close> assigns before its loop. The logging functions
  return a world or a panic and take no function table: no callback is inspected or
  called by \<open>Log\<close> or a severity method, so this error arises from \<open>Init\<close> alone.
\<close>

theorem Init_runs_callbacks:
  assumes "heap w a = Some ob" and "returns_normally fns"
  shows "\<exists>w'. Logger_Init fns (kind_of ob) a w
               = Inr (if \<forall>fn\<in>set (obj_initializers ob). has_sig (expected_sig (kind_of ob)) fn
                      then None else Some (InvalidCallbackSignature (kind_of ob)), w')
            \<and> apply_in_order fns a
                 (takeWhile (has_sig (expected_sig (kind_of ob))) (obj_initializers ob))
                 (before_callbacks a w) = Inr w'"
proof (cases ob)
  case (OFmtLog s)
  with assms(1) init_loop_in_order [OF assms(2), of FnFmtLog msg_Logger a "initializers s" w]
  show ?thesis by (auto simp: FmtLog_Init_def before_callbacks_def)
next
  case (OStdLog s)
  with assms(1) init_loop_in_order [OF assms(2), of FnStdLog msg_Logger a "initializers s" w]
  show ?thesis by (auto simp: StdLog_Init_def before_callbacks_def)
next
  case (OFileLog s)
  with assms(1) init_loop_in_order [OF assms(2), of FnFileLog msg_FileLog a "initializers s"
      "before_callbacks a w"]
  show ?thesis by (auto simp: FileLog_Init_def before_callbacks_def)
next
  case (OStack s)
  with assms(1) init_loop_in_order [OF assms(2), of FnLogger msg_Logger a "initializers s"
      "before_callbacks a w"]
  show ?thesis by (auto simp: Stack_Init_def before_callbacks_def)
qed

theorem Init_runs_callbacks_witness:
  "(\<exists>w'. Logger_Init two_paths KFileLog 0 callbacks_world = Inr (None, w')
       \<and> logPath_at w' 0 = Some ''/tmp/first.log'')
   \<and> (\<exists>w'. Logger_Init two_paths KFileLog 1 callbacks_world
              = Inr (Some (ErrNew ''Init callbacks must have signature func(s *FileLog)''), w')
       \<and> logPath_at w' 1 = Some ''./owtorg-logger.log'')
   \<and> (\<exists>w'. Logger_Init two_paths KStack 2 callbacks_world = Inr (None, w'))"
  using Init_runs_callbacks [OF _ two_paths_returns, of callbacks_world 0
          "OFileLog (new_FileLog\<lparr>initializers := [VFunc FnFileLog 0, VFunc FnFileLog 1]\<rparr>)"]
        Init_runs_callbacks [OF _ two_paths_returns, of callbacks_world 1
          "OFileLog (new_FileLog\<lparr>initializers := [VFunc FnFileLog 1, VFunc FnLogger 0, VFunc FnFileLog 0]\<rparr>)"]
        Init_runs_callbacks [OF _ two_paths_returns, of callbacks_world 2
          "OStack (new_Stack\<lparr>initializers := [VFunc FnLogger 0]\<rparr>)"]
  by (auto simp: callbacks_world_def start_def new_FileLog_def new_Stack_def two_paths_def
        before_callbacks_def logPath_at_def msg_FileLog_def)

end
